theory Spec2Isabelle
  imports Complex_Main
begin

section \<open>World Happiness Report dashboard (app.py)\<close>

text \<open>
  The script loads one CSV table, normalises its column headers, and renders one of six
  chart views chosen in the sidebar. The embedding follows the script top to bottom:
  the header normalisation of \<open>load_data\<close>, the table operations of the data library
  that the views call (\<open>nlargest\<close>, \<open>nsmallest\<close>, \<open>select_dtypes\<close>, column selection,
  \<open>dropna\<close>), the six view branches and the script itself.

  Conventions.
  \<^item> A Python \<open>str\<close> is a \<open>string\<close>; a \<open>char\<close> stands for the code point of the same
    number, so the model covers the headers whose code points are below 256.
  \<^item> The pictographs that open some of the user-visible texts are outside that range
    and are left out of the texts; no property below depends on a text.
  \<^item> Numbers in cells are \<open>rat\<close>: the script only compares them and tests them for
    being missing.
\<close>

subsection \<open>Strings: strip, lower, replace\<close>

text \<open>\<open>str.isspace\<close> on the code points below 256: TAB..CR, FS..US, space, NEL, NBSP.\<close>

definition isspace :: "char \<Rightarrow> bool" where
  "isspace c =
     (let n = (of_char c :: nat)
      in (9 \<le> n \<and> n \<le> 13) \<or> (28 \<le> n \<and> n \<le> 32) \<or> n = 133 \<or> n = 160)"

text \<open>\<open>str.strip()\<close>: drop leading and trailing whitespace.\<close>

definition strip :: "string \<Rightarrow> string" where
  "strip s = rev (dropWhile isspace (rev (dropWhile isspace s)))"

text \<open>
  \<open>str.lower()\<close> on the code points below 256: \<open>A\<close>..\<open>Z\<close> and the Latin-1 capitals
  (192..222 except the multiplication sign 215) move up by 32; all others stay.
\<close>

definition lower_char :: "char \<Rightarrow> char" where
  "lower_char c =
     (let n = (of_char c :: nat)
      in if (65 \<le> n \<and> n \<le> 90) \<or> (192 \<le> n \<and> n \<le> 222 \<and> n \<noteq> 215)
         then char_of (n + 32) else c)"

definition lower :: "string \<Rightarrow> string" where
  "lower s = map lower_char s"

text \<open>\<open>str.replace(' ', '_')\<close>: both patterns are single characters.\<close>

definition replace_space :: "string \<Rightarrow> string" where
  "replace_space s = map (\<lambda>c. if c = CHR '' '' then CHR ''_'' else c) s"

text \<open>Line 19: \<open>df.columns.str.strip().str.lower().str.replace(' ', '_')\<close>, one header.\<close>

definition normalize_header :: "string \<Rightarrow> string" where
  "normalize_header h = replace_space (lower (strip h))"

subsection \<open>The rename map and the rename loop\<close>

text \<open>Lines 22-31; a \<open>dict\<close> iterates in insertion order, so an association list.\<close>

definition rename_map :: "(string \<times> string) list" where
  "rename_map =
     [(''country_name'', ''country''),
      (''ladder_score'', ''happiness_score''),
      (''logged_gdp_per_capita'', ''gdp_per_capita''),
      (''social_support'', ''social_support''),
      (''healthy_life_expectancy'', ''life_expectancy''),
      (''freedom_to_make_life_choices'', ''freedom''),
      (''perceptions_of_corruption'', ''corruption''),
      (''regional_indicator'', ''region'')]"

text \<open>\<open>df.rename(columns={old: new})\<close> on the header list: every header equal to \<open>old\<close>.\<close>

definition rename_columns :: "string \<Rightarrow> string \<Rightarrow> string list \<Rightarrow> string list" where
  "rename_columns old new cols = map (\<lambda>c. if c = old then new else c) cols"

text \<open>Lines 33-35: the loop over the items, each rename guarded by \<open>old in df.columns\<close>.\<close>

fun rename_loop :: "(string \<times> string) list \<Rightarrow> string list \<Rightarrow> string list" where
  "rename_loop [] cols = cols"
| "rename_loop ((old, new) # items) cols =
     rename_loop items (if old \<in> set cols then rename_columns old new cols else cols)"

text \<open>Lines 19-35 on the header list.\<close>

definition normalize_columns :: "string list \<Rightarrow> string list" where
  "normalize_columns hs = rename_loop rename_map (map normalize_header hs)"

text \<open>The rename map read as a function on one header (a dictionary lookup).\<close>

definition rename_header :: "string \<Rightarrow> string" where
  "rename_header h = (case map_of rename_map h of Some new \<Rightarrow> new | None \<Rightarrow> h)"

subsection \<open>Tables\<close>

text \<open>
  A column is a numeric series (\<open>int64\<close>/\<open>float64\<close>) or an object series (text); a
  missing cell (\<open>NaN\<close>) is \<open>None\<close>. The dtype is part of the column, as it is in the
  data library, where the CSV reader fixes it. A table has its column labels (which may
  repeat), one series per label, and the row labels (\<open>index\<close>).
\<close>

datatype series = Number "rat option list" | Object "string option list"

record dataframe =
  columns :: "string list"
  data :: "series list"
  index :: "nat list"

datatype error =
    FileNotFoundError
  | EmptyDataError
  | ParserError
  | KeyError string
  | TypeError string
  | AttributeError

definition nrows :: "dataframe \<Rightarrow> nat" where
  "nrows frame = length (index frame)"

fun series_length :: "series \<Rightarrow> nat" where
  "series_length (Number xs) = length xs"
| "series_length (Object xs) = length xs"

text \<open>
  What the CSV reader returns: one series per label, one cell per row in every series,
  and the row labels \<open>0, 1, \<dots>\<close> (a \<open>RangeIndex\<close>).
\<close>

definition well_formed :: "dataframe \<Rightarrow> bool" where
  "well_formed frame =
     (length (data frame) = length (columns frame)
      \<and> list_all (\<lambda>s. series_length s = nrows frame) (data frame)
      \<and> index frame = [0..<nrows frame])"

text \<open>Is cell \<open>i\<close> of a series missing?\<close>

fun isna :: "series \<Rightarrow> nat \<Rightarrow> bool" where
  "isna (Number xs) i = (xs ! i = None)"
| "isna (Object xs) i = (xs ! i = None)"

text \<open>\<open>take(indexer)\<close>: the rows at the given positions, in the given order.\<close>

fun take_series :: "nat list \<Rightarrow> series \<Rightarrow> series" where
  "take_series ps (Number xs) = Number (map ((!) xs) ps)"
| "take_series ps (Object xs) = Object (map ((!) xs) ps)"

definition take_rows :: "nat list \<Rightarrow> dataframe \<Rightarrow> dataframe" where
  "take_rows ps frame =
     frame\<lparr>data := map (take_series ps) (data frame),
            index := map ((!) (index frame)) ps\<rparr>"

text \<open>The labelled columns of a table, and \<open>frame[c]\<close>: every column labelled \<open>c\<close>.\<close>

definition labelled :: "dataframe \<Rightarrow> (string \<times> series) list" where
  "labelled frame = zip (columns frame) (data frame)"

definition getitem :: "dataframe \<Rightarrow> string \<Rightarrow> series list" where
  "getitem frame c = map snd (filter (\<lambda>(n, s). n = c) (labelled frame))"

text \<open>
  The column that \<open>nlargest\<close>/\<open>nsmallest\<close> order by: a missing label raises \<open>KeyError\<close>,
  an object column \<open>TypeError\<close>, and a repeated label fails on reading the dtype of what
  is then a table.
\<close>

fun order_column :: "string \<Rightarrow> series list \<Rightarrow> error + rat option list" where
  "order_column c [] = Inl (KeyError c)"
| "order_column c [Number xs] = Inr xs"
| "order_column c [Object xs] = Inl (TypeError c)"
| "order_column c (s # t # ss) = Inl AttributeError"

text \<open>Positions of the cells that are present, and of those that are missing.\<close>

definition present :: "rat option list \<Rightarrow> nat list" where
  "present xs = filter (\<lambda>i. xs ! i \<noteq> None) [0..<length xs]"

definition missing :: "rat option list \<Rightarrow> nat list" where
  "missing xs = filter (\<lambda>i. xs ! i = None) [0..<length xs]"

text \<open>
  \<open>frame.nlargest(n, c)\<close>: the first \<open>n\<close> rows in descending order of column \<open>c\<close>,
  ties in their original order (\<open>keep='first'\<close>); rows whose cell is missing come after
  all others and are used only to fill up. \<open>nsmallest\<close> is the same in ascending order.
\<close>

definition nlargest :: "nat \<Rightarrow> string \<Rightarrow> dataframe \<Rightarrow> error + dataframe" where
  "nlargest n c frame =
     (case order_column c (getitem frame c) of
        Inl e \<Rightarrow> Inl e
      | Inr xs \<Rightarrow>
          Inr (take_rows (take n (sort_key (\<lambda>i. - the (xs ! i)) (present xs) @ missing xs)) frame))"

definition nsmallest :: "nat \<Rightarrow> string \<Rightarrow> dataframe \<Rightarrow> error + dataframe" where
  "nsmallest n c frame =
     (case order_column c (getitem frame c) of
        Inl e \<Rightarrow> Inl e
      | Inr xs \<Rightarrow>
          Inr (take_rows (take n (sort_key (\<lambda>i. the (xs ! i)) (present xs) @ missing xs)) frame))"

text \<open>\<open>frame.select_dtypes(include=['number'])\<close>: the numeric columns.\<close>

fun is_number :: "series \<Rightarrow> bool" where
  "is_number (Number xs) = True"
| "is_number (Object xs) = False"

definition select_dtypes_number :: "dataframe \<Rightarrow> dataframe" where
  "select_dtypes_number frame =
     (let kept = filter (\<lambda>(n, s). is_number s) (labelled frame)
      in frame\<lparr>columns := map fst kept, data := map snd kept\<rparr>)"

text \<open>\<open>frame[cols]\<close> with a list of labels: for each label in turn, every column so labelled.\<close>

definition getitem_list :: "dataframe \<Rightarrow> string list \<Rightarrow> dataframe" where
  "getitem_list frame cols =
     (let kept = concat (map (\<lambda>c. filter (\<lambda>(n, s). n = c) (labelled frame)) cols)
      in frame\<lparr>columns := map fst kept, data := map snd kept\<rparr>)"

text \<open>\<open>frame.dropna()\<close>: the rows without a missing cell, in order.\<close>

definition dropna :: "dataframe \<Rightarrow> dataframe" where
  "dropna frame =
     take_rows (filter (\<lambda>i. list_all (\<lambda>s. \<not> isna s i) (data frame)) [0..<nrows frame]) frame"

subsection \<open>The loader\<close>

text \<open>
  Lines 14-37. The argument is what \<open>pd.read_csv("WHR2023.csv")\<close> returns or raises;
  the function has no handler, so an exception leaves it. Only the column labels are
  assigned to (line 19) and renamed (line 35).
\<close>

definition load_data :: "error + dataframe \<Rightarrow> error + dataframe" where
  "load_data read_csv =
     (case read_csv of
        Inl e \<Rightarrow> Inl e
      | Inr frame \<Rightarrow> Inr (frame\<lparr>columns := normalize_columns (columns frame)\<rparr>))"

subsection \<open>The page\<close>

text \<open>
  What the script shows, in order. A chart records the plotting call and the data it is
  given; axis labels, titles, sizes and the two-column layout are left out.
\<close>

datatype chart =
    Barplot string string dataframe string
  | Scatterplot string string "string option" dataframe string
  | Histplot "series list"
  | Heatmap dataframe
  | Pairplot dataframe

datatype event =
    St_title string
  | St_markdown string
  | St_sidebar_title string
  | St_sidebar_radio string "string list"
  | St_error string
  | St_header string
  | St_subheader string
  | St_pyplot chart

text \<open>The globals of the script: the loaded table, the selection, and the page so far.\<close>

record session =
  df :: dataframe
  page :: string
  screen :: "event list"

definition st :: "event \<Rightarrow> session \<Rightarrow> session" where
  "st e s = s\<lparr>screen := screen s @ [e]\<rparr>"

text \<open>Lines 56-63: the six options of the sidebar radio.\<close>

definition options :: "string list" where
  "options =
     [''Top & Bottom 10 Countries'',
      ''GDP vs Happiness'',
      ''Social Support vs Happiness'',
      ''Happiness Distribution'',
      ''Correlation Heatmap'',
      ''Pairwise Relationships'']"

text \<open>Lines 69-71: \<open>safe_col\<close> reads the global table.\<close>

definition safe_col :: "session \<Rightarrow> string \<Rightarrow> bool" where
  "safe_col s col_name = (col_name \<in> set (columns (df s)))"

subsection \<open>The six views\<close>

text \<open>Lines 77-101.\<close>

definition top_bottom_10 :: "session \<Rightarrow> error + session" where
  "top_bottom_10 s =
     (if \<not> safe_col s ''happiness_score'' \<or> \<not> safe_col s ''country''
      then Inr (st (St_error ''Required columns not found in dataset.'') s)
      else
        let s1 = st (St_header ''Top & Bottom 10 Happiest Countries'') s
        in case nlargest 10 ''happiness_score'' (df s1) of
             Inl e \<Rightarrow> Inl e
           | Inr top_10 \<Rightarrow>
               (case nsmallest 10 ''happiness_score'' (df s1) of
                  Inl e \<Rightarrow> Inl e
                | Inr bottom_10 \<Rightarrow>
                    let s2 = st (St_subheader ''Top 10 Happiest Countries'') s1;
                        s3 = st (St_pyplot (Barplot ''happiness_score'' ''country'' top_10 ''Greens_r'')) s2;
                        s4 = st (St_subheader ''Bottom 10 Happiest Countries'') s3
                    in Inr (st (St_pyplot (Barplot ''happiness_score'' ''country'' bottom_10 ''Reds_r'')) s4)))"

text \<open>Lines 107-124.\<close>

definition gdp_vs_happiness :: "session \<Rightarrow> error + session" where
  "gdp_vs_happiness s =
     (if \<not> safe_col s ''gdp_per_capita'' \<or> \<not> safe_col s ''happiness_score''
      then Inr (st (St_error ''GDP or Happiness Score column missing.'') s)
      else
        let s1 = st (St_header ''GDP per Capita vs Happiness Score'') s
        in Inr (st (St_pyplot (Scatterplot ''gdp_per_capita'' ''happiness_score''
                      (if safe_col s1 ''region'' then Some ''region'' else None)
                      (df s1) ''viridis'')) s1))"

text \<open>Lines 130-147.\<close>

definition social_support_vs_happiness :: "session \<Rightarrow> error + session" where
  "social_support_vs_happiness s =
     (if \<not> safe_col s ''social_support'' \<or> \<not> safe_col s ''happiness_score''
      then Inr (st (St_error ''Social Support or Happiness Score column missing.'') s)
      else
        let s1 = st (St_header ''Social Support vs Happiness Score'') s
        in Inr (st (St_pyplot (Scatterplot ''social_support'' ''happiness_score''
                      (if safe_col s1 ''region'' then Some ''region'' else None)
                      (df s1) ''coolwarm'')) s1))"

text \<open>Lines 153-162.\<close>

definition happiness_distribution :: "session \<Rightarrow> error + session" where
  "happiness_distribution s =
     (if \<not> safe_col s ''happiness_score''
      then Inr (st (St_error ''Happiness Score column missing.'') s)
      else
        let s1 = st (St_header ''Distribution of Happiness Scores'') s
        in Inr (st (St_pyplot (Histplot (getitem (df s1) ''happiness_score''))) s1))"

text \<open>Lines 168-173: no column is named and none is looked for.\<close>

definition correlation_heatmap :: "session \<Rightarrow> error + session" where
  "correlation_heatmap s =
     (let s1 = st (St_header ''Correlation Between Key Happiness Factors'') s;
          numeric_df = select_dtypes_number (df s1)
      in Inr (st (St_pyplot (Heatmap numeric_df)) s1))"

text \<open>Lines 179-189.\<close>

definition possible_cols :: "string list" where
  "possible_cols =
     [''happiness_score'', ''gdp_per_capita'', ''social_support'', ''life_expectancy'', ''freedom'']"

definition pairwise_relationships :: "session \<Rightarrow> error + session" where
  "pairwise_relationships s =
     (let valid_cols = filter (safe_col s) possible_cols
      in if length valid_cols < 2
         then Inr (st (St_error ''Not enough numeric columns for pairwise visualization.'') s)
         else
           let s1 = st (St_header ''Pairwise Relationships Between Key Factors'') s;
               df_clean = dropna (getitem_list (df s1) valid_cols)
           in Inr (st (St_pyplot (Pairplot df_clean)) s1))"

subsection \<open>The dispatch and the script\<close>

datatype branch =
    Top_Bottom_10
  | GDP_vs_Happiness
  | Social_Support_vs_Happiness
  | Happiness_Distribution
  | Correlation_Heatmap
  | Pairwise_Relationships

text \<open>
  Lines 76, 106, 129, 152, 167, 178: the \<open>if\<close>/\<open>elif\<close> chain on \<open>page\<close>, which has no
  final \<open>else\<close>. The first condition that holds selects the branch.
\<close>

definition dispatch :: "string \<Rightarrow> branch option" where
  "dispatch p =
     (if p = ''Top & Bottom 10 Countries'' then Some Top_Bottom_10
      else if p = ''GDP vs Happiness'' then Some GDP_vs_Happiness
      else if p = ''Social Support vs Happiness'' then Some Social_Support_vs_Happiness
      else if p = ''Happiness Distribution'' then Some Happiness_Distribution
      else if p = ''Correlation Heatmap'' then Some Correlation_Heatmap
      else if p = ''Pairwise Relationships'' then Some Pairwise_Relationships
      else None)"

text \<open>The condition of each branch taken on its own, without the branches before it.\<close>

fun condition :: "branch \<Rightarrow> string \<Rightarrow> bool" where
  "condition Top_Bottom_10 p = (p = ''Top & Bottom 10 Countries'')"
| "condition GDP_vs_Happiness p = (p = ''GDP vs Happiness'')"
| "condition Social_Support_vs_Happiness p = (p = ''Social Support vs Happiness'')"
| "condition Happiness_Distribution p = (p = ''Happiness Distribution'')"
| "condition Correlation_Heatmap p = (p = ''Correlation Heatmap'')"
| "condition Pairwise_Relationships p = (p = ''Pairwise Relationships'')"

definition branches :: "branch list" where
  "branches =
     [Top_Bottom_10, GDP_vs_Happiness, Social_Support_vs_Happiness,
      Happiness_Distribution, Correlation_Heatmap, Pairwise_Relationships]"

fun body :: "branch \<Rightarrow> session \<Rightarrow> error + session" where
  "body Top_Bottom_10 s = top_bottom_10 s"
| "body GDP_vs_Happiness s = gdp_vs_happiness s"
| "body Social_Support_vs_Happiness s = social_support_vs_happiness s"
| "body Happiness_Distribution s = happiness_distribution s"
| "body Correlation_Heatmap s = correlation_heatmap s"
| "body Pairwise_Relationships s = pairwise_relationships s"

definition view :: "session \<Rightarrow> error + session" where
  "view s = (case dispatch (page s) of None \<Rightarrow> Inr s | Some b \<Rightarrow> body b s)"

text \<open>The texts of lines 45-48 and 195.\<close>

definition intro :: string where
  "intro =
     [CHR 0x0A] @ ''Gain insights into **global happiness trends** and explore how factors like ''
     @ [CHR 0x0A] @ ''**GDP**, **social support**, **health**, and **freedom** contribute to well-being across nations.''
     @ [CHR 0x0A]"

definition footer :: string where
  "footer = ''**Developed by:** Fahad Azeem |  *World Happiness Report 2023 Visualization*''"

text \<open>Lines 39-64: the globals after loading, with what is on the page before the views.\<close>

definition start :: "dataframe \<Rightarrow> string \<Rightarrow> session" where
  "start loaded choice =
     \<lparr>df = loaded, page = choice,
      screen = [St_title ''World Happiness Report 2023 Dashboard'',
                St_markdown intro,
                St_sidebar_title ''Dashboard Navigation'',
                St_sidebar_radio ''Choose a Visualization:'' options]\<rparr>"

text \<open>
  The script, lines 39-195. Its inputs are the outcome of reading the CSV file and the
  option chosen in the sidebar. Nothing in the script catches an exception: one raised
  by the loader or inside a view ends the run.
\<close>

definition script :: "error + dataframe \<Rightarrow> string \<Rightarrow> error + session" where
  "script read_csv choice =
     (case load_data read_csv of
        Inl e \<Rightarrow> Inl e
      | Inr loaded \<Rightarrow>
          (case view (start loaded choice) of
             Inl e \<Rightarrow> Inl e
           | Inr s1 \<Rightarrow> Inr (st (St_markdown footer) (st (St_markdown ''---'') s1))))"

subsection \<open>Auxiliary notions for the proofs\<close>

text \<open>A string without leading or trailing whitespace.\<close>

definition stripped :: "string \<Rightarrow> bool" where
  "stripped s = (s = [] \<or> (\<not> isspace (hd s) \<and> \<not> isspace (last s)))"

text \<open>The effect of \<open>lower\<close> followed by \<open>replace\<close> on one character.\<close>

definition normal_char :: "char \<Rightarrow> char" where
  "normal_char c = (if lower_char c = CHR '' '' then CHR ''_'' else lower_char c)"

text \<open>What the rename loop does to one header: the renames applied in turn.\<close>

fun rename_chain :: "(string \<times> string) list \<Rightarrow> string \<Rightarrow> string" where
  "rename_chain [] c = c"
| "rename_chain ((old, new) # items) c = rename_chain items (if c = old then new else c)"

text \<open>No new name of an item is the old name of a later item.\<close>

fun chain_free :: "(string \<times> string) list \<Rightarrow> bool" where
  "chain_free [] = True"
| "chain_free ((old, new) # items) = (new \<notin> fst ` set items \<and> chain_free items)"

text \<open>Example tables: twenty rows, a country column and a score column.\<close>

definition scores_19 :: "rat option list" where
  "scores_19 =
     [Some 1, Some 2, Some 3, Some 4, Some 5, Some 6, Some 7, Some 8, Some 9, Some 10,
      Some 11, Some 12, Some 13, Some 14, Some 15, Some 16, Some 17, Some 18, Some 19, None]"

definition scores_20 :: "rat option list" where
  "scores_20 =
     [Some 1, Some 2, Some 3, Some 4, Some 5, Some 6, Some 7, Some 8, Some 9, Some 10,
      Some 11, Some 12, Some 13, Some 14, Some 15, Some 16, Some 17, Some 18, Some 19, Some 20]"

definition countries_20 :: "string option list" where
  "countries_20 = replicate 20 (Some ''x'')"

definition table_of :: "rat option list \<Rightarrow> dataframe" where
  "table_of scores =
     \<lparr>columns = [''country'', ''happiness_score''],
      data = [Object countries_20, Number scores],
      index = [0..<20]\<rparr>"

text \<open>Example table: two rows, no \<open>region\<close> column.\<close>

definition table_no_region :: dataframe where
  "table_no_region =
     \<lparr>columns = [''country'', ''happiness_score'', ''gdp_per_capita'', ''social_support''],
      data = [Object [Some ''Finland'', Some ''Chad''], Number [Some 7, Some 4],
              Number [Some 10, None], Number [Some 1, Some 0]],
      index = [0, 1]\<rparr>"


text \<open>Example table: two numeric columns that the script does not know by name.\<close>

definition table_ab :: dataframe where
  "table_ab =
     \<lparr>columns = [''a'', ''b''],
      data = [Number [Some 1, Some 2], Number [Some 2, Some 1]],
      index = [0, 1]\<rparr>"

text \<open>The first test of each branch: the condition under which it shows its error.\<close>

fun guard :: "branch \<Rightarrow> session \<Rightarrow> bool" where
  "guard Top_Bottom_10 s = (\<not> safe_col s ''happiness_score'' \<or> \<not> safe_col s ''country'')"
| "guard GDP_vs_Happiness s = (\<not> safe_col s ''gdp_per_capita'' \<or> \<not> safe_col s ''happiness_score'')"
| "guard Social_Support_vs_Happiness s = (\<not> safe_col s ''social_support'' \<or> \<not> safe_col s ''happiness_score'')"
| "guard Happiness_Distribution s = (\<not> safe_col s ''happiness_score'')"
| "guard Correlation_Heatmap s = False"
| "guard Pairwise_Relationships s = (length (filter (safe_col s) possible_cols) < 2)"

text \<open>The selected view misses its columns.\<close>

definition missing_columns :: "session \<Rightarrow> bool" where
  "missing_columns s = (case dispatch (page s) of None \<Rightarrow> False | Some b \<Rightarrow> guard b s)"

text \<open>Example table: the score column holds text.\<close>

definition table_text_scores :: dataframe where
  "table_text_scores =
     \<lparr>columns = [''country'', ''happiness_score''],
      data = [Object [Some ''Finland''], Object [Some ''high'']],
      index = [0]\<rparr>"



section \<open>Header normalisation\<close>

lemma of_char_lt: "(of_char c :: nat) < 256"
  by (metis of_char_of char_of_char mod_less_divisor zero_less_numeral)

lemma lower_char_idem: "lower_char (lower_char c) = lower_char c"
  using of_char_lt [of c] by (auto simp: lower_char_def Let_def)

lemma isspace_lower_char: "isspace (lower_char c) = isspace c"
  using of_char_lt [of c] by (auto simp: lower_char_def isspace_def Let_def)

lemma lower_char_space: "lower_char c = CHR '' '' \<longleftrightarrow> c = CHR '' ''"
proof -
  have "of_char (lower_char c) = (32::nat) \<longleftrightarrow> of_char c = (32::nat)"
    using of_char_lt [of c] by (auto simp: lower_char_def Let_def take_bit_eq_mod)
  moreover have "of_char CHR '' '' = (32::nat)" by simp
  then have "\<And>d. of_char d = (32::nat) \<longleftrightarrow> d = CHR '' ''"
    by (metis of_char_eq_iff)
  ultimately show ?thesis by simp
qed

lemma isspace_space: "isspace CHR '' ''"
  by (simp add: isspace_def)

lemma not_isspace_underscore: "\<not> isspace CHR ''_''"
  by (simp add: isspace_def)

lemma stripped_strip: "stripped (strip s)"
proof -
  let ?t = "dropWhile isspace s"
  let ?u = "dropWhile isspace (rev ?t)"
  show ?thesis
  proof (cases "?u = []")
    case True then show ?thesis by (simp add: stripped_def strip_def)
  next
    case False
    then have hdu: "\<not> isspace (hd ?u)" by (simp add: hd_dropWhile)
    from False have tne: "?t \<noteq> []" by (cases "?t = []") simp_all
    then have hdt: "\<not> isspace (hd ?t)" by (simp add: hd_dropWhile)
    have "last ?u = last (rev ?t)" using False
      by (metis last_appendR takeWhile_dropWhile_id)
    also have "\<dots> = hd ?t" using tne by (simp add: last_rev)
    finally have "\<not> isspace (last ?u)" using hdt by simp
    then show ?thesis using hdu False
      by (simp add: stripped_def strip_def hd_rev last_rev)
  qed
qed

lemma strip_stripped: "stripped s \<Longrightarrow> strip s = s"
proof (cases s)
  case Nil then show ?thesis by (simp add: strip_def)
next
  case (Cons a t)
  assume "stripped s"
  with Cons have h: "\<not> isspace (hd s)" "\<not> isspace (last s)" "s \<noteq> []"
    by (auto simp: stripped_def)
  then have "dropWhile isspace s = s"
    by (cases s) auto
  moreover have "dropWhile isspace (rev s) = rev s"
    using h by (cases "rev s") (auto simp: hd_rev dest: arg_cong [where f = hd] )
  ultimately show ?thesis by (simp add: strip_def)
qed

lemma stripped_map:
  assumes "stripped s" and keep: "\<And>c. \<not> isspace c \<Longrightarrow> \<not> isspace (f c)"
  shows "stripped (map f s)"
proof (cases "s = []")
  case True
  then show ?thesis by (simp add: stripped_def)
next
  case False
  with assms(1) have "\<not> isspace (hd s)" and "\<not> isspace (last s)"
    by (simp_all add: stripped_def)
  then have "\<not> isspace (f (hd s))" and "\<not> isspace (f (last s))"
    by (simp_all add: keep)
  with False show ?thesis
    by (simp add: stripped_def hd_map last_map)
qed

lemma normalize_header_map: "normalize_header h = map normal_char (strip h)"
  by (simp add: normalize_header_def replace_space_def lower_def normal_char_def o_def)

lemma lower_char_underscore: "lower_char CHR ''_'' = CHR ''_''"
  by (simp add: lower_char_def)

lemma normal_char_idem: "normal_char (normal_char c) = normal_char c"
  by (auto simp: normal_char_def lower_char_idem lower_char_space lower_char_underscore)

lemma stripped_normalize_header: "stripped (normalize_header h)"
  unfolding normalize_header_map
  by (rule stripped_map [OF stripped_strip])
     (auto simp: normal_char_def lower_char_space isspace_space isspace_lower_char not_isspace_underscore)

lemma normalize_header_idem: "normalize_header (normalize_header h) = normalize_header h"
proof -
  have "strip (normalize_header h) = normalize_header h"
    by (rule strip_stripped [OF stripped_normalize_header])
  then have "normalize_header (normalize_header h) = map normal_char (normalize_header h)"
    by (simp add: normalize_header_map)
  also have "\<dots> = normalize_header h"
    by (simp add: normalize_header_map normal_char_idem)
  finally show ?thesis .
qed

lemma rename_columns_absent: "old \<notin> set cols \<Longrightarrow> rename_columns old new cols = cols"
  by (induction cols) (auto simp: rename_columns_def)

lemma rename_loop_map: "rename_loop items cols = map (rename_chain items) cols"
proof (induction items cols rule: rename_loop.induct)
  case (1 cols)
  then show ?case by (simp add: map_idI)
next
  case (2 old new items cols)
  have "(if old \<in> set cols then rename_columns old new cols else cols) = rename_columns old new cols"
    by (simp add: rename_columns_absent)
  with 2 show ?case
    by (simp add: rename_columns_def o_def)
qed

lemma rename_chain_not_key: "c \<notin> fst ` set items \<Longrightarrow> rename_chain items c = c"
  by (induction items arbitrary: c) auto

lemma rename_chain_map_of:
  "chain_free items \<Longrightarrow>
   rename_chain items c = (case map_of items c of Some new \<Rightarrow> new | None \<Rightarrow> c)"
  by (induction items arbitrary: c) (auto simp: rename_chain_not_key map_of_eq_None_iff [THEN iffD2])

lemma chain_free_rename_map: "chain_free rename_map"
  by (simp add: rename_map_def)

lemma rename_chain_rename_map: "rename_chain rename_map c = rename_header c"
  by (simp add: rename_header_def rename_chain_map_of [OF chain_free_rename_map])

lemma normalize_columns_map:
  "normalize_columns hs = map (\<lambda>h. rename_header (normalize_header h)) hs"
  by (simp add: normalize_columns_def rename_loop_map rename_chain_rename_map)

lemma normalize_header_canonical:
  "normalize_header ''country'' = ''country''"
  "normalize_header ''happiness_score'' = ''happiness_score''"
  "normalize_header ''gdp_per_capita'' = ''gdp_per_capita''"
  "normalize_header ''social_support'' = ''social_support''"
  "normalize_header ''life_expectancy'' = ''life_expectancy''"
  "normalize_header ''freedom'' = ''freedom''"
  "normalize_header ''corruption'' = ''corruption''"
  "normalize_header ''region'' = ''region''"
  by code_simp+


lemma rename_header_canonical:
  "rename_header ''country'' = ''country''"
  "rename_header ''happiness_score'' = ''happiness_score''"
  "rename_header ''gdp_per_capita'' = ''gdp_per_capita''"
  "rename_header ''social_support'' = ''social_support''"
  "rename_header ''life_expectancy'' = ''life_expectancy''"
  "rename_header ''freedom'' = ''freedom''"
  "rename_header ''corruption'' = ''corruption''"
  "rename_header ''region'' = ''region''"
  by (simp_all add: rename_header_def rename_map_def)

lemma canonical_fixed:
  assumes "c \<in> set (map snd rename_map)"
  shows "rename_header (normalize_header c) = c"
proof -
  from assms have "c = ''country'' \<or> c = ''happiness_score'' \<or> c = ''gdp_per_capita''
      \<or> c = ''social_support'' \<or> c = ''life_expectancy'' \<or> c = ''freedom''
      \<or> c = ''corruption'' \<or> c = ''region''"
    unfolding rename_map_def by simp
  then show ?thesis
    by (elim disjE) (simp_all only: normalize_header_canonical rename_header_canonical)
qed

lemma rename_header_cases:
  "rename_header h = h \<or> rename_header h \<in> set (map snd rename_map)"
proof (cases "map_of rename_map h")
  case None
  then show ?thesis by (simp add: rename_header_def)
next
  case (Some new)
  then have "(h, new) \<in> set rename_map" by (rule map_of_SomeD)
  then have "new \<in> set (map snd rename_map)" by force
  with Some show ?thesis by (simp add: rename_header_def)
qed

lemma canonical_idem:
  "rename_header (normalize_header (rename_header (normalize_header h))) = rename_header (normalize_header h)"
  using rename_header_cases [of "normalize_header h"]
proof
  assume "rename_header (normalize_header h) = normalize_header h"
  then show ?thesis by (simp add: normalize_header_idem)
next
  assume "rename_header (normalize_header h) \<in> set (map snd rename_map)"
  then show ?thesis by (rule canonical_fixed)
qed

text \<open>
  C3. The header normalisation of the loader (strip, lowercase, spaces to underscores,
  then the rename loop) is idempotent: applied to its own result it changes nothing, for
  every list of headers.
\<close>

theorem normalize_columns_idempotent:
  "normalize_columns (normalize_columns hs) = normalize_columns hs"
  by (simp add: normalize_columns_map canonical_idem)

theorem normalize_columns_idempotent_witness:
  "normalize_columns (normalize_columns [''  Ladder Score '', ''Country name'', ''Year''])
     = normalize_columns [''  Ladder Score '', ''Country name'', ''Year'']
   \<and> normalize_columns [''  Ladder Score '', ''Country name'', ''Year'']
     = [''happiness_score'', ''country'', ''year'']"
proof -
  have "normalize_columns [''  Ladder Score '', ''Country name'', ''Year'']
     = [''happiness_score'', ''country'', ''year'']"
    by code_simp
  with normalize_columns_idempotent [of "[''  Ladder Score '', ''Country name'', ''Year'']"]
  show ?thesis by simp
qed

text \<open>
  C4. The loader turns every header into its stripped, lowercased form with spaces
  replaced by underscores, and then replaces it by the value of the rename map when it
  is a key of the map; a header that is not a key stays.
\<close>

theorem load_data_columns:
  "load_data (Inr frame) = Inr frame' \<Longrightarrow>
   columns frame' =
     map (\<lambda>h. let h' = replace_space (lower (strip h))
              in case map_of rename_map h' of Some new \<Rightarrow> new | None \<Rightarrow> h')
         (columns frame)"
  by (auto simp: load_data_def normalize_columns_map rename_header_def normalize_header_def Let_def)

theorem load_data_columns_witness:
  "load_data (Inr \<lparr>columns = [''Country name'', ''Ladder score'', ''Regional indicator'', '' Foo Bar ''],
                    data = [Object [Some ''Finland''], Number [Some 7], Object [None], Number [None]],
                    index = [0]\<rparr>)
     = Inr \<lparr>columns = [''country'', ''happiness_score'', ''region'', ''foo_bar''],
            data = [Object [Some ''Finland''], Number [Some 7], Object [None], Number [None]],
            index = [0]\<rparr>
   \<and> map (\<lambda>h. let h' = replace_space (lower (strip h))
              in case map_of rename_map h' of Some new \<Rightarrow> new | None \<Rightarrow> h')
         [''Country name'', ''Ladder score'', ''Regional indicator'', '' Foo Bar '']
     = [''country'', ''happiness_score'', ''region'', ''foo_bar'']"
proof -
  have run: "load_data (Inr \<lparr>columns = [''Country name'', ''Ladder score'', ''Regional indicator'', '' Foo Bar ''],
                    data = [Object [Some ''Finland''], Number [Some 7], Object [None], Number [None]],
                    index = [0]\<rparr>)
     = Inr \<lparr>columns = [''country'', ''happiness_score'', ''region'', ''foo_bar''],
            data = [Object [Some ''Finland''], Number [Some 7], Object [None], Number [None]],
            index = [0]\<rparr>"
    by code_simp
  from load_data_columns [OF run] run show ?thesis by simp
qed

text \<open>
  C5. Apart from the column labels the loader returns the table it was given: the cells,
  the number of rows and their order, and the number of columns are those of the parsed
  CSV.
\<close>

theorem load_data_frame:
  "\<exists>frame'. load_data (Inr frame) = Inr frame'
     \<and> data frame' = data frame
     \<and> index frame' = index frame
     \<and> nrows frame' = nrows frame
     \<and> length (columns frame') = length (columns frame)"
  by (simp add: load_data_def nrows_def normalize_columns_map)

section \<open>The Top and Bottom 10 selections\<close>

lemma map_nth_filter: "map ((!) xs) (filter (\<lambda>i. Q (xs ! i)) [0..<length xs]) = filter Q xs"
proof -
  have "filter Q (map ((!) xs) [0..<length xs])
      = map ((!) xs) (filter (Q \<circ> (!) xs) [0..<length xs])"
    by (rule filter_map)
  then show ?thesis by (simp add: map_nth o_def)
qed

lemma length_present_missing: "length (present xs) + length (missing xs) = length xs"
  using sum_length_filter_compl [of "\<lambda>i. xs ! i \<noteq> None" "[0..<length xs]"]
  by (simp add: present_def missing_def)

lemma distinct_present: "distinct (present xs)"
  by (simp add: present_def)

lemma present_bound: "i \<in> set (present xs) \<Longrightarrow> i < length xs"
  by (simp add: present_def)

lemma present_not_None: "i \<in> set (present xs) \<Longrightarrow> xs ! i \<noteq> None"
  by (simp add: present_def)

lemma map_nth_present: "map ((!) xs) (present xs) = filter (\<lambda>x. x \<noteq> None) xs"
  unfolding present_def by (rule map_nth_filter)

lemma length_present: "length (present xs) = length (filter (\<lambda>x. x \<noteq> None) xs)"
  using arg_cong [OF map_nth_present, of length xs] by simp

lemma inj_on_present:
  assumes "distinct (filter (\<lambda>x. x \<noteq> None) xs)"
  shows "inj_on (\<lambda>i. the (xs ! i)) (set (present xs))"
proof (rule inj_onI)
  fix i j
  assume i: "i \<in> set (present xs)" and j: "j \<in> set (present xs)"
    and eq: "the (xs ! i) = the (xs ! j)"
  from assms have "distinct (map ((!) xs) (present xs))"
    by (simp add: map_nth_present)
  then have inj: "inj_on ((!) xs) (set (present xs))"
    by (simp add: distinct_map)
  from i j eq have "xs ! i = xs ! j"
    by (auto dest!: present_not_None intro: option.expand)
  with inj i j show "i = j" by (auto dest: inj_onD)
qed

lemma sorted_rev_uminus:
  fixes k :: "'a \<Rightarrow> rat"
  assumes "sorted (map k ys)"
  shows "sorted (map (\<lambda>i. - k i) (rev ys))"
  using assms by (simp add: rev_map sorted_wrt_rev sorted_wrt_map)

lemma descending_is_reverse:
  fixes k :: "nat \<Rightarrow> rat"
  assumes d: "distinct ps" and inj: "inj_on k (set ps)"
  shows "sort_key (\<lambda>i. - k i) ps = rev (sort_key k ps)"
proof (rule map_sorted_distinct_set_unique [where f = "\<lambda>i. - k i"])
  from inj have inj': "inj_on (\<lambda>i. - k i) (set ps)"
    by (auto simp: inj_on_def)
  then show "inj_on (\<lambda>i. - k i) (set (sort_key (\<lambda>i. - k i) ps) \<union> set (rev (sort_key k ps)))"
    by simp
  show "sorted (map (\<lambda>i. - k i) (sort_key (\<lambda>i. - k i) ps))"
    by (rule sorted_sort_key)
  show "distinct (map (\<lambda>i. - k i) (sort_key (\<lambda>i. - k i) ps))"
    using d inj' by (simp add: distinct_map)
  show "sorted (map (\<lambda>i. - k i) (rev (sort_key k ps)))"
    by (rule sorted_rev_uminus) (rule sorted_sort_key)
  show "distinct (map (\<lambda>i. - k i) (rev (sort_key k ps)))"
    using d inj' by (simp add: distinct_map)
  show "set (sort_key (\<lambda>i. - k i) ps) = set (rev (sort_key k ps))"
    by simp
qed

lemma selections_disjoint:
  fixes k :: "nat \<Rightarrow> rat"
  assumes d: "distinct ps" and inj: "inj_on k (set ps)" and len: "2 * n \<le> length ps"
  shows "set (take n (sort_key (\<lambda>i. - k i) ps @ ms)) \<inter> set (take n (sort_key k ps @ ms')) = {}"
proof -
  let ?asc = "sort_key k ps"
  have "take n (sort_key (\<lambda>i. - k i) ps @ ms) = take n (rev ?asc)"
    using len by (simp add: descending_is_reverse [OF d inj])
  also have "\<dots> = rev (drop (length ps - n) ?asc)"
    by (simp add: take_rev)
  finally have top: "set (take n (sort_key (\<lambda>i. - k i) ps @ ms)) = set (drop (length ps - n) ?asc)"
    by simp
  have bottom: "take n (?asc @ ms') = take n ?asc"
    using len by simp
  have "set (take n ?asc) \<inter> set (drop (length ps - n) ?asc) = {}"
    using d len by (intro set_take_disj_set_drop_if_distinct) simp_all
  with top bottom show ?thesis by auto
qed

lemma selection_subset:
  "set (take n (sort_key f (present xs) @ missing xs)) \<subseteq> {..<length xs}"
proof -
  have "set (take n (sort_key f (present xs) @ missing xs))
      \<subseteq> set (sort_key f (present xs) @ missing xs)"
    by (rule set_take_subset)
  also have "\<dots> \<subseteq> {..<length xs}"
    by (auto simp: present_def missing_def)
  finally show ?thesis .
qed

lemma length_selection:
  "length (take n (sort_key f (present xs) @ missing xs)) = min n (length xs)"
proof -
  have "length (take n (sort_key f (present xs) @ missing xs))
      = min n (length (present xs) + length (missing xs))"
    by simp
  then show ?thesis by (simp only: length_present_missing)
qed

lemma labels_disjoint:
  assumes "distinct idx" and "set A \<subseteq> {..<length idx}" and "set B \<subseteq> {..<length idx}"
    and "set A \<inter> set B = {}"
  shows "set (map ((!) idx) A) \<inter> set (map ((!) idx) B) = {}"
proof -
  have inj: "inj_on ((!) idx) {..<length idx}"
    using assms(1) by (intro inj_on_nth) simp_all
  show ?thesis
  proof (rule ccontr)
    assume "set (map ((!) idx) A) \<inter> set (map ((!) idx) B) \<noteq> {}"
    then obtain a b where a: "a \<in> set A" and b: "b \<in> set B" and eq: "idx ! a = idx ! b"
      by auto
    from a b assms(2,3) have "a \<in> {..<length idx}" and "b \<in> {..<length idx}"
      by auto
    with inj eq have "a = b" by (auto dest: inj_onD)
    with a b assms(4) show False by auto
  qed
qed

lemma nrows_take_rows: "nrows (take_rows ps frame) = length ps"
  by (simp add: nrows_def take_rows_def)

lemma index_take_rows: "index (take_rows ps frame) = map ((!) (index frame)) ps"
  by (simp add: take_rows_def)

lemma getitem_in_data: "s \<in> set (getitem frame c) \<Longrightarrow> s \<in> set (data frame)"
  by (auto simp: getitem_def labelled_def dest: set_zip_rightD)

lemma well_formed_column:
  assumes "well_formed frame" and "getitem frame c = [Number xs]"
  shows "length xs = nrows frame"
proof -
  from assms(2) have "Number xs \<in> set (data frame)"
    by (intro getitem_in_data [of _ frame c]) simp
  with assms(1) show ?thesis
    by (auto simp: well_formed_def list_all_iff)
qed

lemma well_formed_index: "well_formed frame \<Longrightarrow> distinct (index frame)"
  by (metis well_formed_def distinct_upt)

lemma df_st: "df (st e s) = df s"
  by (simp add: st_def)


lemma getitem_safe_col:
  assumes "getitem (df s) c \<noteq> []"
  shows "safe_col s c"
proof -
  from assms have "filter (\<lambda>(n, s). n = c) (labelled (df s)) \<noteq> []"
    by (simp add: getitem_def)
  then obtain n ser where "(n, ser) \<in> set (labelled (df s))" and "n = c"
    by (auto simp: filter_empty_conv)
  then have "c \<in> set (columns (df s))"
    unfolding labelled_def by (auto dest: set_zip_leftD)
  then show ?thesis by (simp add: safe_col_def)
qed

lemma set_present_missing: "set (present xs) \<union> set (missing xs) = {..<length xs}"
  by (auto simp: present_def missing_def)

lemma selection_all:
  assumes "length xs \<le> n"
  shows "set (take n (sort_key f (present xs) @ missing xs)) = {..<length xs}"
proof -
  have "length (sort_key f (present xs) @ missing xs) = length xs"
    by (simp add: length_present_missing)
  with assms have "take n (sort_key f (present xs) @ missing xs) = sort_key f (present xs) @ missing xs"
    by simp
  then show ?thesis by (simp add: set_present_missing)
qed

lemma labels_all:
  assumes "set ps = {..<length idx}"
  shows "set (map ((!) idx) ps) = set idx"
proof -
  have "(!) idx ` {0..<length idx} = set idx"
    by (simp add: nth_image)
  with assms show ?thesis
    by (simp add: atLeast0LessThan)
qed

text \<open>
  C2 (as amended). Let the loaded table be as the CSV reader returns it, with a
  \<open>country\<close> column and exactly one \<open>happiness_score\<close> column, which is numeric. Then
  the Top-10 and the Bottom-10 selections exist and the view draws them; each has exactly
  10 rows, or all rows of the table when it has at most 10; and the two are disjoint sets
  of rows whenever at least 20 rows have a score and the scores that are present are
  pairwise distinct.
\<close>

theorem top_bottom_10_selections:
  assumes wf: "well_formed (df s)"
    and col: "getitem (df s) ''happiness_score'' = [Number xs]"
    and country: "safe_col s ''country''"
  shows "\<exists>top_10 bottom_10.
      nlargest 10 ''happiness_score'' (df s) = Inr top_10
    \<and> nsmallest 10 ''happiness_score'' (df s) = Inr bottom_10
    \<and> top_bottom_10 s =
        Inr (st (St_pyplot (Barplot ''happiness_score'' ''country'' bottom_10 ''Reds_r''))
            (st (St_subheader ''Bottom 10 Happiest Countries'')
            (st (St_pyplot (Barplot ''happiness_score'' ''country'' top_10 ''Greens_r''))
            (st (St_subheader ''Top 10 Happiest Countries'')
            (st (St_header ''Top & Bottom 10 Happiest Countries'') s)))))
    \<and> nrows top_10 = min 10 (nrows (df s))
    \<and> nrows bottom_10 = min 10 (nrows (df s))
    \<and> (nrows (df s) \<le> 10 \<longrightarrow>
         set (index top_10) = set (index (df s)) \<and> set (index bottom_10) = set (index (df s)))
    \<and> (20 \<le> length (filter (\<lambda>x. x \<noteq> None) xs) \<and> distinct (filter (\<lambda>x. x \<noteq> None) xs) \<longrightarrow>
         set (index top_10) \<inter> set (index bottom_10) = {})"
proof -
  let ?top = "take 10 (sort_key (\<lambda>i. - the (xs ! i)) (present xs) @ missing xs)"
  let ?bottom = "take 10 (sort_key (\<lambda>i. the (xs ! i)) (present xs) @ missing xs)"
  have len: "length xs = nrows (df s)"
    using wf col by (rule well_formed_column)
  then have len': "length xs = length (index (df s))"
    by (simp add: nrows_def)
  have top: "nlargest 10 ''happiness_score'' (df s) = Inr (take_rows ?top (df s))"
    by (simp add: nlargest_def col)
  have bottom: "nsmallest 10 ''happiness_score'' (df s) = Inr (take_rows ?bottom (df s))"
    by (simp add: nsmallest_def col)
  have score: "safe_col s ''happiness_score''"
    by (rule getitem_safe_col) (simp add: col)
  have shown: "top_bottom_10 s =
        Inr (st (St_pyplot (Barplot ''happiness_score'' ''country'' (take_rows ?bottom (df s)) ''Reds_r''))
            (st (St_subheader ''Bottom 10 Happiest Countries'')
            (st (St_pyplot (Barplot ''happiness_score'' ''country'' (take_rows ?top (df s)) ''Greens_r''))
            (st (St_subheader ''Top 10 Happiest Countries'')
            (st (St_header ''Top & Bottom 10 Happiest Countries'') s)))))"
    using score country by (simp add: top_bottom_10_def Let_def df_st top bottom)
  have n_top: "nrows (take_rows ?top (df s)) = min 10 (nrows (df s))"
    by (simp only: nrows_take_rows length_selection len)
  have n_bottom: "nrows (take_rows ?bottom (df s)) = min 10 (nrows (df s))"
    by (simp only: nrows_take_rows length_selection len)
  have all: "set (index (take_rows ?top (df s))) = set (index (df s))
      \<and> set (index (take_rows ?bottom (df s))) = set (index (df s))"
    if "nrows (df s) \<le> 10"
  proof -
    from that len have "length xs \<le> 10" by simp
    then have "set ?top = {..<length (index (df s))}" and "set ?bottom = {..<length (index (df s))}"
      by (simp_all only: selection_all len')
    then show ?thesis
      by (simp only: index_take_rows labels_all)
  qed
  have disjoint: "set (index (take_rows ?top (df s))) \<inter> set (index (take_rows ?bottom (df s))) = {}"
    if "20 \<le> length (filter (\<lambda>x. x \<noteq> None) xs)" and "distinct (filter (\<lambda>x. x \<noteq> None) xs)"
  proof -
    from that(1) have "2 * 10 \<le> length (present xs)"
      by (simp add: length_present)
    with distinct_present inj_on_present [OF that(2)]
    have "set ?top \<inter> set ?bottom = {}"
      by (rule selections_disjoint)
    moreover have "set ?top \<subseteq> {..<length (index (df s))}" and "set ?bottom \<subseteq> {..<length (index (df s))}"
      using selection_subset [of 10 _ xs] by (simp_all only: len')
    ultimately show ?thesis
      unfolding index_take_rows
      by (intro labels_disjoint well_formed_index [OF wf])
  qed
  show ?thesis
  proof (intro exI conjI impI)
    show "nlargest 10 ''happiness_score'' (df s) = Inr (take_rows ?top (df s))"
      by (rule top)
    show "nsmallest 10 ''happiness_score'' (df s) = Inr (take_rows ?bottom (df s))"
      by (rule bottom)
    show "top_bottom_10 s =
        Inr (st (St_pyplot (Barplot ''happiness_score'' ''country'' (take_rows ?bottom (df s)) ''Reds_r''))
            (st (St_subheader ''Bottom 10 Happiest Countries'')
            (st (St_pyplot (Barplot ''happiness_score'' ''country'' (take_rows ?top (df s)) ''Greens_r''))
            (st (St_subheader ''Top 10 Happiest Countries'')
            (st (St_header ''Top & Bottom 10 Happiest Countries'') s)))))"
      by (rule shown)
    show "nrows (take_rows ?top (df s)) = min 10 (nrows (df s))"
      by (rule n_top)
    show "nrows (take_rows ?bottom (df s)) = min 10 (nrows (df s))"
      by (rule n_bottom)
    show "set (index (take_rows ?top (df s))) = set (index (df s))" if "nrows (df s) \<le> 10"
      using all [OF that] by (rule conjunct1)
    show "set (index (take_rows ?bottom (df s))) = set (index (df s))" if "nrows (df s) \<le> 10"
      using all [OF that] by (rule conjunct2)
    show "set (index (take_rows ?top (df s))) \<inter> set (index (take_rows ?bottom (df s))) = {}"
      if "20 \<le> length (filter (\<lambda>x. x \<noteq> None) xs) \<and> distinct (filter (\<lambda>x. x \<noteq> None) xs)"
      using that by (intro disjoint) simp_all
  qed
qed

text \<open>The theorem at a table of twenty rows with the scores 1 to 20.\<close>

theorem top_bottom_10_selections_witness:
  "\<exists>top_10 bottom_10.
      nlargest 10 ''happiness_score'' (table_of scores_20) = Inr top_10
    \<and> nsmallest 10 ''happiness_score'' (table_of scores_20) = Inr bottom_10
    \<and> nrows top_10 = 10 \<and> nrows bottom_10 = 10
    \<and> set (index top_10) \<inter> set (index bottom_10) = {}"
proof -
  let ?s = "\<lparr>df = table_of scores_20, page = ''Top & Bottom 10 Countries'', screen = []\<rparr>"
  have wf: "well_formed (df ?s)"
    by code_simp
  have col: "getitem (df ?s) ''happiness_score'' = [Number scores_20]"
    by code_simp
  have country: "safe_col ?s ''country''"
    by code_simp
  have present: "20 \<le> length (filter (\<lambda>x. x \<noteq> None) scores_20)
      \<and> distinct (filter (\<lambda>x. x \<noteq> None) scores_20)"
    by code_simp
  have rows: "nrows (df ?s) = 20"
    by code_simp
  from top_bottom_10_selections [OF wf col country] present rows
  show ?thesis by auto
qed

text \<open>
  C2 as stated fails when a score is missing. Twenty rows, the scores 1 to 19 and one
  missing score: the scores are pairwise distinct and the table has 20 rows, yet row 9
  (score 10) is both in the Top 10 and in the Bottom 10, because a row without a score
  is ranked after all others by both selections.
\<close>

theorem top_bottom_10_overlap_counterexample:
  "well_formed (table_of scores_19)
   \<and> nrows (table_of scores_19) = 20
   \<and> getitem (table_of scores_19) ''happiness_score'' = [Number scores_19]
   \<and> distinct scores_19
   \<and> map_sum id index (nlargest 10 ''happiness_score'' (table_of scores_19))
       = Inr [18, 17, 16, 15, 14, 13, 12, 11, 10, 9]
   \<and> map_sum id index (nsmallest 10 ''happiness_score'' (table_of scores_19))
       = Inr [0, 1, 2, 3, 4, 5, 6, 7, 8, 9]"
proof (intro conjI)
  show "well_formed (table_of scores_19)" by code_simp
  show "nrows (table_of scores_19) = 20" by code_simp
  show "getitem (table_of scores_19) ''happiness_score'' = [Number scores_19]" by code_simp
  show "distinct scores_19" by code_simp
  show "map_sum id index (nlargest 10 ''happiness_score'' (table_of scores_19))
       = Inr [18, 17, 16, 15, 14, 13, 12, 11, 10, 9]" by code_simp
  show "map_sum id index (nsmallest 10 ''happiness_score'' (table_of scores_19))
       = Inr [0, 1, 2, 3, 4, 5, 6, 7, 8, 9]" by code_simp
qed

section \<open>The dispatch\<close>

lemma dispatch_condition: "dispatch p = Some b \<longleftrightarrow> condition b p"
  by (cases b) (simp_all add: dispatch_def)

lemma condition_unique: "condition b p \<Longrightarrow> condition b' p \<Longrightarrow> b = b'"
  by (cases b; cases b'; simp)

lemma dispatch_options: "map dispatch options = map Some branches"
  by code_simp

lemma options_distinct: "length options = 6 \<and> distinct options"
  by code_simp

text \<open>
  C8. The six views exclude each other: a branch runs exactly when its own condition on
  the selection holds, no value of the selection satisfies the conditions of two
  branches, and each of the six option strings of the radio (which are six different
  strings) satisfies the condition of exactly one branch, the branches being met in the
  order of the options.
\<close>

theorem views_mutually_exclusive:
  "(dispatch p = Some b \<longleftrightarrow> condition b p)
   \<and> (condition b p \<and> condition b' p \<longrightarrow> b = b')
   \<and> length options = 6
   \<and> distinct options
   \<and> (\<forall>q \<in> set options. \<exists>!c. condition c q)
   \<and> map dispatch options = map Some branches"
proof (intro conjI)
  show "dispatch p = Some b \<longleftrightarrow> condition b p"
    by (rule dispatch_condition)
  show "condition b p \<and> condition b' p \<longrightarrow> b = b'"
    by (auto dest: condition_unique)
  show "length options = 6" and "distinct options"
    using options_distinct by simp_all
  show "map dispatch options = map Some branches"
    by (rule dispatch_options)
  show "\<forall>q \<in> set options. \<exists>!c. condition c q"
  proof
    fix q
    assume "q \<in> set options"
    then have "dispatch q \<in> set (map dispatch options)"
      by simp
    then have "dispatch q \<in> set (map Some branches)"
      by (simp only: dispatch_options)
    then obtain c where "dispatch q = Some c"
      by auto
    then have "condition c q"
      by (simp add: dispatch_condition)
    then show "\<exists>!c. condition c q"
      by (auto dest: condition_unique)
  qed
qed

text \<open>The theorem at the second option.\<close>

theorem views_mutually_exclusive_witness:
  "dispatch ''GDP vs Happiness'' = Some GDP_vs_Happiness
   \<and> condition GDP_vs_Happiness ''GDP vs Happiness''
   \<and> ''GDP vs Happiness'' \<in> set options
   \<and> (\<exists>!c. condition c ''GDP vs Happiness'')"
proof -
  have mem: "''GDP vs Happiness'' \<in> set options"
    by code_simp
  have c: "condition GDP_vs_Happiness ''GDP vs Happiness''"
    by simp
  from views_mutually_exclusive [of "''GDP vs Happiness''" GDP_vs_Happiness GDP_vs_Happiness] mem c
  show ?thesis by blast
qed

section \<open>The scatter views\<close>

lemma page_st: "page (st e s) = page s"
  by (simp add: st_def)

lemma screen_st: "screen (st e s) = screen s @ [e]"
  by (simp add: st_def)




section \<open>The column checks of the views\<close>






section \<open>The table after loading, and failures\<close>

lemma top_bottom_10_frame:
  "top_bottom_10 s = Inr s' \<Longrightarrow> df s' = df s \<and> page s' = page s"
  by (auto simp: top_bottom_10_def Let_def df_st page_st split: if_splits sum.splits)

lemma body_frame: "body b s = Inr s' \<Longrightarrow> df s' = df s \<and> page s' = page s"
proof (cases b)
  case Top_Bottom_10
  assume "body b s = Inr s'"
  with Top_Bottom_10 show ?thesis by (simp add: top_bottom_10_frame)
next
  case GDP_vs_Happiness
  assume "body b s = Inr s'"
  with GDP_vs_Happiness show ?thesis
    by (auto simp: gdp_vs_happiness_def Let_def df_st page_st split: if_splits)
next
  case Social_Support_vs_Happiness
  assume "body b s = Inr s'"
  with Social_Support_vs_Happiness show ?thesis
    by (auto simp: social_support_vs_happiness_def Let_def df_st page_st split: if_splits)
next
  case Happiness_Distribution
  assume "body b s = Inr s'"
  with Happiness_Distribution show ?thesis
    by (auto simp: happiness_distribution_def Let_def df_st page_st split: if_splits)
next
  case Correlation_Heatmap
  assume "body b s = Inr s'"
  with Correlation_Heatmap show ?thesis
    by (auto simp: correlation_heatmap_def Let_def df_st page_st)
next
  case Pairwise_Relationships
  assume "body b s = Inr s'"
  with Pairwise_Relationships show ?thesis
    by (auto simp: pairwise_relationships_def Let_def df_st page_st split: if_splits)
qed

lemma view_frame: "view s = Inr s' \<Longrightarrow> df s' = df s \<and> page s' = page s"
  by (auto simp: view_def split: option.splits dest: body_frame)

text \<open>
  C7. The loaded table is never changed after loading: whichever view is selected, the
  global table after the view is the table before it, and at the end of the script it is
  still the table that the loader returned. What a view derives from the table (the two
  selections, the numeric columns, the column subset without incomplete rows) is a value
  of its own.
\<close>

theorem table_never_mutated:
  "(view s = Inr s' \<longrightarrow> df s' = df s)
   \<and> (script read_csv choice = Inr s' \<longrightarrow> load_data read_csv = Inr (df s'))"
proof (intro conjI impI)
  assume "view s = Inr s'"
  then show "df s' = df s" by (rule view_frame [THEN conjunct1])
next
  assume "script read_csv choice = Inr s'"
  then obtain loaded s1 where l: "load_data read_csv = Inr loaded"
    and v: "view (start loaded choice) = Inr s1"
    and s': "s' = st (St_markdown footer) (st (St_markdown ''---'') s1)"
    by (auto simp: script_def split: sum.splits)
  from view_frame [OF v] have "df s1 = loaded"
    by (simp add: start_def)
  with l s' show "load_data read_csv = Inr (df s')"
    by (simp add: df_st)
qed

text \<open>
  The theorem at the pairwise view of a table with a missing cell: the chart gets a
  frame of three columns and one row, the table keeps its four columns and two rows.
\<close>

theorem table_never_mutated_witness:
  "view \<lparr>df = table_no_region, page = ''Pairwise Relationships'', screen = []\<rparr>
     = Inr \<lparr>df = table_no_region, page = ''Pairwise Relationships'',
            screen = [St_header ''Pairwise Relationships Between Key Factors'',
                      St_pyplot (Pairplot
                        \<lparr>columns = [''happiness_score'', ''gdp_per_capita'', ''social_support''],
                         data = [Number [Some 7], Number [Some 10], Number [Some 1]],
                         index = [0]\<rparr>)]\<rparr>
   \<and> df \<lparr>df = table_no_region, page = ''Pairwise Relationships'',
            screen = [St_header ''Pairwise Relationships Between Key Factors'',
                      St_pyplot (Pairplot
                        \<lparr>columns = [''happiness_score'', ''gdp_per_capita'', ''social_support''],
                         data = [Number [Some 7], Number [Some 10], Number [Some 1]],
                         index = [0]\<rparr>)]\<rparr>
     = table_no_region"
proof -
  let ?s = "\<lparr>df = table_no_region, page = ''Pairwise Relationships'', screen = []\<rparr>"
  let ?s' = "\<lparr>df = table_no_region, page = ''Pairwise Relationships'',
            screen = [St_header ''Pairwise Relationships Between Key Factors'',
                      St_pyplot (Pairplot
                        \<lparr>columns = [''happiness_score'', ''gdp_per_capita'', ''social_support''],
                         data = [Number [Some 7], Number [Some 10], Number [Some 1]],
                         index = [0]\<rparr>)]\<rparr>"
  have run: "view ?s = Inr ?s'"
    by code_simp
  from table_never_mutated [of ?s ?s'] run show ?thesis
    by simp
qed

lemma body_error:
  assumes "body b s = Inr s'" and "St_error m \<in> set (screen s')"
  shows "St_error m \<in> set (screen s) \<or> guard b s"
proof (cases b)
  case Top_Bottom_10
  with assms show ?thesis
    by (auto simp: top_bottom_10_def Let_def screen_st split: if_splits sum.splits)
next
  case GDP_vs_Happiness
  with assms show ?thesis
    by (auto simp: gdp_vs_happiness_def Let_def screen_st split: if_splits)
next
  case Social_Support_vs_Happiness
  with assms show ?thesis
    by (auto simp: social_support_vs_happiness_def Let_def screen_st split: if_splits)
next
  case Happiness_Distribution
  with assms show ?thesis
    by (auto simp: happiness_distribution_def Let_def screen_st split: if_splits)
next
  case Correlation_Heatmap
  with assms show ?thesis
    by (auto simp: correlation_heatmap_def Let_def screen_st)
next
  case Pairwise_Relationships
  with assms show ?thesis
    by (auto simp: pairwise_relationships_def Let_def screen_st split: if_splits)
qed

lemma body_guard:
  assumes "guard b s"
  shows "\<exists>m. body b s = Inr (st (St_error m) s)"
proof (cases b)
  case Top_Bottom_10
  with assms show ?thesis by (auto simp: top_bottom_10_def)
next
  case GDP_vs_Happiness
  with assms show ?thesis by (auto simp: gdp_vs_happiness_def)
next
  case Social_Support_vs_Happiness
  with assms show ?thesis by (auto simp: social_support_vs_happiness_def)
next
  case Happiness_Distribution
  with assms show ?thesis by (auto simp: happiness_distribution_def)
next
  case Correlation_Heatmap
  with assms show ?thesis by simp
next
  case Pairwise_Relationships
  with assms show ?thesis by (auto simp: pairwise_relationships_def)
qed

lemma missing_columns_cong:
  "df s' = df s \<Longrightarrow> page s' = page s \<Longrightarrow> missing_columns s' = missing_columns s"
proof -
  assume eq: "df s' = df s" "page s' = page s"
  then have "safe_col s' = safe_col s"
    by (simp add: safe_col_def fun_eq_iff)
  then have "guard b s' = guard b s" for b
    by (cases b) simp_all
  with eq show ?thesis
    by (simp add: missing_columns_def split: option.splits)
qed

lemma start_no_error: "St_error m \<notin> set (screen (start loaded choice))"
  by (simp add: start_def)

lemma view_error:
  assumes "view s = Inr s'" and "St_error m \<in> set (screen s')"
  shows "St_error m \<in> set (screen s) \<or> missing_columns s"
proof (cases "dispatch (page s)")
  case None
  with assms show ?thesis by (simp add: view_def)
next
  case (Some b)
  with assms have "body b s = Inr s'" by (simp add: view_def)
  from body_error [OF this assms(2)] Some show ?thesis
    by (simp add: missing_columns_def)
qed

lemma view_missing_columns:
  assumes "missing_columns s"
  shows "\<exists>m. view s = Inr (st (St_error m) s)"
proof (cases "dispatch (page s)")
  case None
  with assms show ?thesis by (simp add: missing_columns_def)
next
  case (Some b)
  with assms have "guard b s" by (simp add: missing_columns_def)
  from body_guard [OF this] Some show ?thesis
    by (simp add: view_def)
qed

lemma script_load_fails: "script (Inl e) choice = Inl e"
  by (simp add: script_def load_data_def)

lemma script_view_fails:
  "load_data read_csv = Inr loaded \<Longrightarrow> view (start loaded choice) = Inl e \<Longrightarrow>
   script read_csv choice = Inl e"
  by (simp add: script_def)

lemma script_error_shown:
  assumes run: "script read_csv choice = Inr s" and err: "St_error m \<in> set (screen s)"
  shows "missing_columns s"
proof -
  obtain loaded' where l: "load_data read_csv = Inr loaded'"
    using run by (cases "load_data read_csv") (simp_all add: script_def)
  obtain s1 where v: "view (start loaded' choice) = Inr s1"
    using run l by (cases "view (start loaded' choice)") (simp_all add: script_def)
  from run l v have s: "s = st (St_markdown footer) (st (St_markdown ''---'') s1)"
    by (simp add: script_def)
  from err have "St_error m \<in> set (screen s1)"
    unfolding s by (simp add: screen_st)
  from view_error [OF v this] have mc: "missing_columns (start loaded' choice)"
    by (simp add: start_no_error)
  from view_frame [OF v]
  have "df s = df (start loaded' choice)" and "page s = page (start loaded' choice)"
    unfolding s by (simp_all add: df_st page_st)
  then have "missing_columns s = missing_columns (start loaded' choice)"
    by (rule missing_columns_cong)
  with mc show "missing_columns s"
    by simp
qed

lemma script_missing_columns:
  assumes l: "load_data read_csv = Inr loaded" and mc: "missing_columns (start loaded choice)"
  shows "\<exists>s m. script read_csv choice = Inr s \<and> St_error m \<in> set (screen s)"
proof -
  from mc obtain m where "view (start loaded choice) = Inr (st (St_error m) (start loaded choice))"
    by (rule view_missing_columns [THEN exE])
  with l have run: "script read_csv choice
      = Inr (st (St_markdown footer) (st (St_markdown ''---'') (st (St_error m) (start loaded choice))))"
    by (simp add: script_def)
  have shown: "St_error m \<in> set (screen (st (St_markdown footer)
      (st (St_markdown ''---'') (st (St_error m) (start loaded choice)))))"
    by (simp add: screen_st)
  show ?thesis
    by (intro exI conjI) (rule run, rule shown)
qed

text \<open>
  C6. Missing columns are the only failure the script handles. Whatever reading the CSV
  raises (a missing file, a parse error) ends the script with that exception, and so
  does an exception raised inside a view. An error message is on the page only if the
  selected view misses its columns, and whenever it misses them the script ends
  normally with an error message on the page.
\<close>

theorem only_missing_columns_handled:
  "script (Inl e) choice = Inl e
   \<and> (load_data read_csv = Inr loaded \<and> view (start loaded choice) = Inl e
        \<longrightarrow> script read_csv choice = Inl e)
   \<and> (script read_csv choice = Inr s \<and> St_error m \<in> set (screen s) \<longrightarrow> missing_columns s)
   \<and> (load_data read_csv = Inr loaded \<and> missing_columns (start loaded choice)
        \<longrightarrow> (\<exists>s m. script read_csv choice = Inr s \<and> St_error m \<in> set (screen s)))"
proof (intro conjI impI)
  show "script (Inl e) choice = Inl e"
    by (rule script_load_fails)
next
  assume "load_data read_csv = Inr loaded \<and> view (start loaded choice) = Inl e"
  then show "script read_csv choice = Inl e"
    by (elim conjE) (rule script_view_fails)
next
  assume "script read_csv choice = Inr s \<and> St_error m \<in> set (screen s)"
  then show "missing_columns s"
    by (elim conjE) (rule script_error_shown)
next
  assume "load_data read_csv = Inr loaded \<and> missing_columns (start loaded choice)"
  then show "\<exists>s m. script read_csv choice = Inr s \<and> St_error m \<in> set (screen s)"
    by (elim conjE) (rule script_missing_columns)
qed

text \<open>
  The theorem at a missing file, at a parse error, at a table whose score column is
  text (the Top and Bottom view raises), and at a table without a score column.
\<close>

theorem only_missing_columns_handled_witness:
  "script (Inl FileNotFoundError) ''Happiness Distribution'' = Inl FileNotFoundError
   \<and> script (Inl ParserError) ''Happiness Distribution'' = Inl ParserError
   \<and> script (Inr table_text_scores) ''Top & Bottom 10 Countries'' = Inl (TypeError ''happiness_score'')
   \<and> missing_columns (start table_ab ''Happiness Distribution'')
   \<and> (\<exists>s m. script (Inr table_ab) ''Happiness Distribution'' = Inr s \<and> St_error m \<in> set (screen s))"
proof -
  have l: "load_data (Inr table_text_scores) = Inr table_text_scores"
    by code_simp
  have v: "view (start table_text_scores ''Top & Bottom 10 Countries'') = Inl (TypeError ''happiness_score'')"
    by code_simp
  have l': "load_data (Inr table_ab) = Inr table_ab"
    by code_simp
  have m: "missing_columns (start table_ab ''Happiness Distribution'')"
    by code_simp
  note a = only_missing_columns_handled [of FileNotFoundError "''Happiness Distribution''"]
  note b = only_missing_columns_handled [of ParserError "''Happiness Distribution''"]
  note c = only_missing_columns_handled [of "TypeError ''happiness_score''" "''Top & Bottom 10 Countries''"
      "Inr table_text_scores" table_text_scores]
  note d = only_missing_columns_handled [of FileNotFoundError "''Happiness Distribution''" "Inr table_ab" table_ab]
  from a have 1: "script (Inl FileNotFoundError) ''Happiness Distribution'' = Inl FileNotFoundError"
    by (rule conjunct1)
  from b have 2: "script (Inl ParserError) ''Happiness Distribution'' = Inl ParserError"
    by (rule conjunct1)
  from c [THEN conjunct2, THEN conjunct1] l v
  have 3: "script (Inr table_text_scores) ''Top & Bottom 10 Countries''
      = Inl (TypeError ''happiness_score'')"
    by simp
  from d [THEN conjunct2, THEN conjunct2, THEN conjunct2] l' m
  have 4: "\<exists>s m. script (Inr table_ab) ''Happiness Distribution'' = Inr s
      \<and> St_error m \<in> set (screen s)"
    by simp
  from 1 2 3 m 4 show ?thesis by (intro conjI)
qed

section \<open>The pairwise view\<close>








lemma labelled_getitem_list:
  "labelled (getitem_list frame cols)
     = concat (map (\<lambda>c. filter (\<lambda>(n, ser). n = c) (labelled frame)) cols)"
  by (simp add: getitem_list_def Let_def labelled_def [of "_\<lparr>columns := _, data := _\<rparr>"] zip_map_fst_snd)











end
